theory Spec2Isabelle
  imports Main "HOL-Library.Word"
begin

section \<open>Values, strings and builtins of the host language\<close>

text \<open>
  A string of the scripts is a list of 16-bit code units, so a string with a lone
  surrogate, which \<^verbatim>\<open>encodeURIComponent\<close> refuses, is a value of the type. \<open>js\<close> gives
  the code units of a literal written in ASCII. The bytes of a \<^verbatim>\<open>Blob\<close> are a list of
  8-bit words.

  \<open>jsval\<close> holds what \<^verbatim>\<open>res.json()\<close> can give and \<^verbatim>\<open>undefined\<close>. A number or an array is
  \<open>JOther t s\<close>, kept by the two things the scripts do with it: its truthiness \<open>t\<close> and
  its string conversion \<open>s\<close>, which is \<open>None\<close> when the conversion throws (an array that
  holds an object with a \<^verbatim>\<open>toString\<close> key).
\<close>

type_synonym jsstring = "16 word list"

type_synonym octets = "8 word list"

definition js :: "string \<Rightarrow> jsstring" where
  "js s = map of_char s"

datatype jsval =
    JUndefined
  | JNull
  | JBool bool
  | JStr jsstring
  | JObj "(jsstring \<times> jsval) list"
  | JOther bool "jsstring option"

datatype js_error =
    FetchFailed          \<comment> \<open>the TypeError of a \<^verbatim>\<open>fetch\<close> that could not complete\<close>
  | JsonSyntax           \<comment> \<open>\<^verbatim>\<open>res.json()\<close> on a body that is not JSON\<close>
  | NullAccess           \<comment> \<open>TypeError: a property of \<^verbatim>\<open>null\<close> or of \<^verbatim>\<open>undefined\<close>, a null argument\<close>
  | NotPrimitive         \<comment> \<open>TypeError: an object that cannot be converted to a string\<close>
  | URIError             \<comment> \<open>\<^verbatim>\<open>encodeURIComponent\<close> on a lone surrogate\<close>
  | RunFailed nat        \<comment> \<open>\<^verbatim>\<open>new Error(`Run failed: ${res.status}`)\<close>\<close>
  | Err string           \<comment> \<open>\<^verbatim>\<open>new Error(msg)\<close>, with its message in ASCII\<close>
  | VizFailed jsstring   \<comment> \<open>the rendering library's rejection, with its \<^verbatim>\<open>toString()\<close>\<close>

fun truthy :: "jsval \<Rightarrow> bool" where
  "truthy JUndefined = False"
| "truthy JNull = False"
| "truthy (JBool b) = b"
| "truthy (JStr s) = (s \<noteq> [])"
| "truthy (JObj kvs) = True"
| "truthy (JOther t s) = t"

text \<open>
  The string conversion of a template literal \<^verbatim>\<open>${v}\<close> and of \<^verbatim>\<open>"..." + v\<close>. A parsed
  object inherits \<^verbatim>\<open>toString\<close> and converts to \<^verbatim>\<open>[object Object]\<close>, unless it has a key
  \<^verbatim>\<open>toString\<close> of its own: the value of that key is not a function, the inherited
  \<^verbatim>\<open>valueOf\<close> (or a \<^verbatim>\<open>valueOf\<close> key) gives no primitive, and the conversion throws a
  TypeError.
\<close>

fun to_str :: "jsval \<Rightarrow> js_error + jsstring" where
  "to_str JUndefined = Inr (js ''undefined'')"
| "to_str JNull = Inr (js ''null'')"
| "to_str (JBool b) = Inr (if b then js ''true'' else js ''false'')"
| "to_str (JStr s) = Inr s"
| "to_str (JObj kvs) =
     (if js ''toString'' \<in> set (map fst kvs) then Inl NotPrimitive
      else Inr (js ''[object Object]''))"
| "to_str (JOther t s) = (case s of None \<Rightarrow> Inl NotPrimitive | Some x \<Rightarrow> Inr x)"

text \<open>
  \<^verbatim>\<open>v.k\<close> for the keys the scripts read (\<^verbatim>\<open>job_id\<close>, \<^verbatim>\<open>ready\<close>): a TypeError on
  \<^verbatim>\<open>null\<close> and \<^verbatim>\<open>undefined\<close>, the last binding of the key in a parsed object,
  \<^verbatim>\<open>undefined\<close> otherwise.
\<close>

fun get_prop :: "jsval \<Rightarrow> jsstring \<Rightarrow> js_error + jsval" where
  "get_prop JUndefined k = Inl NullAccess"
| "get_prop JNull k = Inl NullAccess"
| "get_prop (JObj kvs) k =
     Inr (case map_of (rev kvs) k of None \<Rightarrow> JUndefined | Some v \<Rightarrow> v)"
| "get_prop v k = Inr JUndefined"

subsection \<open>\<^verbatim>\<open>String.prototype.trim\<close>\<close>

text \<open>
  White space and line terminators: U+0009 to U+000D, U+0020, U+00A0, U+1680, U+2000
  to U+200A, U+2028, U+2029, U+202F, U+205F, U+3000 and U+FEFF.
\<close>

definition is_ws :: "16 word \<Rightarrow> bool" where
  "is_ws c =
     (let n = unat c in
        (9 \<le> n \<and> n \<le> 13) \<or> n = 0x20 \<or> n = 0xA0 \<or> n = 0x1680 \<or>
        (0x2000 \<le> n \<and> n \<le> 0x200A) \<or> n = 0x2028 \<or> n = 0x2029 \<or> n = 0x202F \<or>
        n = 0x205F \<or> n = 0x3000 \<or> n = 0xFEFF)"

definition trim :: "jsstring \<Rightarrow> jsstring" where
  "trim s = rev (dropWhile is_ws (rev (dropWhile is_ws s)))"

subsection \<open>UTF-8, \<^verbatim>\<open>encodeURIComponent\<close> and \<^verbatim>\<open>JSON.stringify\<close>\<close>

definition is_lead :: "16 word \<Rightarrow> bool" where
  "is_lead c = (0xD800 \<le> unat c \<and> unat c \<le> 0xDBFF)"

definition is_trail :: "16 word \<Rightarrow> bool" where
  "is_trail c = (0xDC00 \<le> unat c \<and> unat c \<le> 0xDFFF)"

text \<open>The code point of a surrogate pair, and the octets of a code point in UTF-8.\<close>

definition pair_point :: "16 word \<Rightarrow> 16 word \<Rightarrow> nat" where
  "pair_point c d = 0x10000 + (unat c - 0xD800) * 0x400 + (unat d - 0xDC00)"

definition utf8 :: "nat \<Rightarrow> nat list" where
  "utf8 n =
     (if n < 0x80 then [n]
      else if n < 0x800 then [0xC0 + n div 64, 0x80 + n mod 64]
      else if n < 0x10000 then [0xE0 + n div 4096, 0x80 + (n div 64) mod 64, 0x80 + n mod 64]
      else [0xF0 + n div 262144, 0x80 + (n div 4096) mod 64, 0x80 + (n div 64) mod 64,
            0x80 + n mod 64])"

text \<open>
  The bytes of a \<^verbatim>\<open>Blob\<close> built from a string: the string in UTF-8, a lone surrogate
  replaced by U+FFFD.
\<close>

fun utf8_encode :: "jsstring \<Rightarrow> octets" where
  "utf8_encode [] = []"
| "utf8_encode [c] =
     (if is_lead c \<or> is_trail c then [0xEF, 0xBF, 0xBD] else map of_nat (utf8 (unat c)))"
| "utf8_encode (c # d # s) =
     (if is_lead c then
        (if is_trail d then map of_nat (utf8 (pair_point c d)) @ utf8_encode s
         else [0xEF, 0xBF, 0xBD] @ utf8_encode (d # s))
      else if is_trail c then [0xEF, 0xBF, 0xBD] @ utf8_encode (d # s)
      else map of_nat (utf8 (unat c)) @ utf8_encode (d # s))"

definition hex_digit :: "string \<Rightarrow> nat \<Rightarrow> 16 word" where
  "hex_digit digits d = of_char (digits ! (d mod 16))"

definition unreserved :: "16 word \<Rightarrow> bool" where
  "unreserved c =
     (c \<in> set (js ''ABCDEFGHIJKLMNOPQRSTUVWXYZabcdefghijklmnopqrstuvwxyz0123456789-_.!~*()'')
      \<or> c = 0x27)"

definition percent :: "nat list \<Rightarrow> jsstring" where
  "percent bs =
     concat (map (\<lambda>b. [of_char CHR ''%'', hex_digit ''0123456789ABCDEF'' (b div 16),
                         hex_digit ''0123456789ABCDEF'' b]) bs)"

definition after :: "jsstring \<Rightarrow> js_error + jsstring \<Rightarrow> js_error + jsstring" where
  "after x r = (case r of Inl err \<Rightarrow> Inl err | Inr s \<Rightarrow> Inr (x @ s))"

text \<open>
  \<^verbatim>\<open>encodeURIComponent\<close>: an unreserved character stays, any other code point becomes the
  escapes of its UTF-8 octets, and a surrogate that is not half of a pair throws a
  URIError.
\<close>

fun encodeURIComponent :: "jsstring \<Rightarrow> js_error + jsstring" where
  "encodeURIComponent [] = Inr []"
| "encodeURIComponent [c] =
     (if unreserved c then Inr [c]
      else if is_lead c \<or> is_trail c then Inl URIError
      else Inr (percent (utf8 (unat c))))"
| "encodeURIComponent (c # d # s) =
     (if unreserved c then after [c] (encodeURIComponent (d # s))
      else if is_lead c then
        (if is_trail d then after (percent (utf8 (pair_point c d))) (encodeURIComponent s)
         else Inl URIError)
      else if is_trail c then Inl URIError
      else after (percent (utf8 (unat c))) (encodeURIComponent (d # s)))"

text \<open>
  The string quoting of \<^verbatim>\<open>JSON.stringify\<close>: the short escapes, \<^verbatim>\<open>\u\<close> and four lower
  case hex digits for the other control characters and for a lone surrogate; a
  surrogate pair stays.
\<close>

definition json_unit :: "16 word \<Rightarrow> jsstring" where
  "json_unit c =
     (let n = unat c in
      if n = 0x22 then [0x5C, 0x22]
      else if n = 0x5C then [0x5C, 0x5C]
      else if n = 8 then [0x5C, of_char CHR ''b'']
      else if n = 12 then [0x5C, of_char CHR ''f'']
      else if n = 10 then [0x5C, of_char CHR ''n'']
      else if n = 13 then [0x5C, of_char CHR ''r'']
      else if n = 9 then [0x5C, of_char CHR ''t'']
      else if n < 32 \<or> is_lead c \<or> is_trail c then
        [0x5C, of_char CHR ''u'', hex_digit ''0123456789abcdef'' (n div 4096),
         hex_digit ''0123456789abcdef'' (n div 256), hex_digit ''0123456789abcdef'' (n div 16),
         hex_digit ''0123456789abcdef'' n]
      else [c])"

fun json_units :: "jsstring \<Rightarrow> jsstring" where
  "json_units [] = []"
| "json_units [c] = json_unit c"
| "json_units (c # d # s) =
     (if is_lead c \<and> is_trail d then c # d # json_units s
      else json_unit c @ json_units (d # s))"

definition json_string :: "jsstring \<Rightarrow> jsstring" where
  "json_string s = [0x22] @ json_units s @ [0x22]"

text \<open>\<^verbatim>\<open>JSON.stringify({ repo_url: repo })\<close>.\<close>

definition stringify_repo_url :: "jsstring \<Rightarrow> jsstring" where
  "stringify_repo_url repo_v =
     js ''{'' @ json_string (js ''repo_url'') @ js '':'' @ json_string repo_v @ js ''}''"

section \<open>The page and its environment\<close>

datatype http_method = GET | POST

text \<open>A request, as the arguments that the script gives to \<^verbatim>\<open>fetch\<close>.\<close>

record request =
  meth :: http_method
  url :: jsstring
  headers :: "(jsstring \<times> jsstring) list"
  body :: "jsstring option"

record blob =
  bytes :: octets
  mime :: jsstring

text \<open>
  A response, by what the scripts read of it: \<^verbatim>\<open>res.status\<close> (\<^verbatim>\<open>res.ok\<close> is a status
  from 200 to 299), \<^verbatim>\<open>res.text()\<close>, \<^verbatim>\<open>res.json()\<close> (\<open>None\<close> when the body is not JSON and
  the promise rejects) and \<^verbatim>\<open>res.blob()\<close>.
\<close>

record response =
  status :: nat
  text_body :: jsstring
  json_body :: "jsval option"
  blob_body :: blob

definition ok :: "response \<Rightarrow> bool" where
  "ok res = (200 \<le> status res \<and> status res \<le> 299)"

datatype fetch_result = NetworkError | Resolved response

text \<open>An SVG element: its identity as an object and its markup (\<^verbatim>\<open>outerHTML\<close>).\<close>

record svg =
  ident :: nat
  outerHTML :: jsstring

datatype raster = LoadFails | Drawn "blob option"

datatype event =
    Fetched request fetch_result
  | Alerted jsstring
  | ConsoleError js_error
  | Saved jsstring blob
  | Uncaught js_error
  | Invoked string jsval

text \<open>
  The world outside the scripts. \<open>backend env n rq\<close> is what \<^verbatim>\<open>fetch\<close> gives for the
  request \<open>rq\<close> when \<open>n\<close> requests have been issued before it, so that a backend may
  answer the same request differently over time. The rendering library is a function
  of the graph description: the markup of the element it resolves to, or the string of
  the error it rejects with. \<open>rasterize\<close> is the image and canvas pipeline of the PNG
  export: the image fails to load, or \<^verbatim>\<open>canvas.toBlob\<close> calls back with a blob or
  \<^verbatim>\<open>null\<close>.
\<close>

record env =
  backend :: "nat \<Rightarrow> request \<Rightarrow> fetch_result"
  renderSVGElement :: "jsstring \<Rightarrow> jsstring + jsstring"
  renderImageElement :: "jsstring \<Rightarrow> jsstring + jsstring"
  serializeToString :: "svg \<Rightarrow> jsstring"
  rasterize :: "blob \<Rightarrow> raster"

text \<open>
  The page: the value of the \<^verbatim>\<open>#repo\<close> input, the text of \<^verbatim>\<open>#status\<close> and of
  \<^verbatim>\<open>#out\<close>, the children of \<^verbatim>\<open>#diagram\<close>, the module variables \<^verbatim>\<open>currentSVG\<close>
  (\<open>None\<close> is \<^verbatim>\<open>null\<close>) and \<^verbatim>\<open>currentDot\<close>, the pending \<^verbatim>\<open>setTimeout\<close> callbacks
  \<^verbatim>\<open>() => poll(job)\<close> as (delay, job), and what has been observed so far: the number
  of requests issued, the next fresh object identity and the events in order. An
  \<open>Uncaught\<close> event is an exception leaving a handler or a promise rejected with no
  handler; \<open>Invoked f v\<close> marks an entry into the function \<open>f\<close> with the argument \<open>v\<close>.
\<close>

record page =
  repo :: jsstring
  status_text :: jsstring
  out_text :: jsstring
  diagram :: "svg list"
  currentSVG :: "svg option"
  currentDot :: jsstring
  timers :: "(nat \<times> jsval) list"
  nreq :: nat
  next_id :: nat
  events :: "event list"

definition init_page :: "jsstring \<Rightarrow> page" where
  "init_page r =
     \<lparr>repo = r, status_text = [], out_text = [], diagram = [], currentSVG = None,
      currentDot = [], timers = [], nreq = 0, next_id = 0, events = []\<rparr>"

definition emit :: "event \<Rightarrow> page \<Rightarrow> page" where
  "emit e st = st\<lparr>events := events st @ [e]\<rparr>"

definition fetch :: "env \<Rightarrow> request \<Rightarrow> page \<Rightarrow> fetch_result \<times> page" where
  "fetch en rq st =
     (let r = backend en (nreq st) rq
      in (r, st\<lparr>nreq := Suc (nreq st), events := events st @ [Fetched rq r]\<rparr>))"

definition get_req :: "jsstring \<Rightarrow> request" where
  "get_req u = \<lparr>meth = GET, url = u, headers = [], body = None\<rparr>"

definition post_req :: "jsstring \<Rightarrow> request" where
  "post_req u = \<lparr>meth = POST, url = u, headers = [], body = None\<rparr>"

definition setTimeout :: "jsval \<Rightarrow> nat \<Rightarrow> page \<Rightarrow> page" where
  "setTimeout job ms st = st\<lparr>timers := timers st @ [(ms, job)]\<rparr>"

definition set_status :: "jsstring \<Rightarrow> page \<Rightarrow> page" where
  "set_status s st = st\<lparr>status_text := s\<rparr>"

text \<open>\<^verbatim>\<open>Done\<close>, a space and the check mark U+2705.\<close>

definition done_text :: jsstring where
  "done_text = js ''Done '' @ [0x2705]"

section \<open>\<^verbatim>\<open>arch-web-app/frontend/main.js\<close>, first script\<close>

definition API_BASE :: jsstring where
  "API_BASE = js ''https://arch-repoo.onrender.com''"

definition status_url :: "jsstring \<Rightarrow> jsstring" where
  "status_url j = API_BASE @ js ''/status/'' @ j"

definition result_url :: "jsstring \<Rightarrow> jsstring" where
  "result_url j = API_BASE @ js ''/result/'' @ j @ js ''/dot''"

text \<open>The URL of the submission, from the encoded repository URL.\<close>

definition run_url :: "jsstring \<Rightarrow> jsstring" where
  "run_url q = API_BASE @ js ''/run?repo_url='' @ q"

text \<open>
  \<^verbatim>\<open>render(job)\<close>: the \<^verbatim>\<open>try\<close> block as a value (the error thrown, or the page after
  the block), then the \<^verbatim>\<open>catch\<close>. The template literal of the URL can throw before
  \<^verbatim>\<open>fetch\<close> is called. A rejected \<^verbatim>\<open>renderSVGElement\<close> throws before the assignment, so
  \<^verbatim>\<open>currentSVG\<close> keeps its old value.
\<close>

definition render_try :: "env \<Rightarrow> jsval \<Rightarrow> page \<Rightarrow> (js_error \<times> page) + page" where
  "render_try en job st =
     (case to_str job of
        Inl err \<Rightarrow> Inl (err, st)
      | Inr j \<Rightarrow>
          (let (r, st1) = fetch en (get_req (result_url j)) st in
           case r of
             NetworkError \<Rightarrow> Inl (FetchFailed, st1)
           | Resolved dotRes \<Rightarrow>
               if \<not> ok dotRes then Inl (Err ''DOT fetch failed'', st1)
               else
                 (case renderSVGElement en (text_body dotRes) of
                    Inl msg \<Rightarrow> Inl (VizFailed msg, st1)
                  | Inr markup \<Rightarrow>
                      (let el = \<lparr>ident = next_id st1, outerHTML = markup\<rparr>;
                           st2 = st1\<lparr>next_id := Suc (next_id st1), currentSVG := Some el\<rparr>;
                           st3 = st2\<lparr>diagram := []\<rparr>;
                           st4 = st3\<lparr>diagram := diagram st3 @ [el]\<rparr>
                       in Inr (set_status done_text st4)))))"

definition render :: "env \<Rightarrow> jsval \<Rightarrow> page \<Rightarrow> page" where
  "render en job st =
     (case render_try en job (emit (Invoked ''render'' job) st) of
        Inl (err, st1) \<Rightarrow>
          set_status (js ''Graphviz render failed.'') (emit (ConsoleError err) st1)
      | Inr st1 \<Rightarrow> st1)"

text \<open>
  One call of \<^verbatim>\<open>poll(job)\<close>. \<open>poll_try\<close> is the part of the \<^verbatim>\<open>try\<close> block up to the
  reading of \<^verbatim>\<open>s.ready\<close>, the only part that can throw.
\<close>

definition poll_try :: "env \<Rightarrow> jsval \<Rightarrow> page \<Rightarrow> (js_error + jsval) \<times> page" where
  "poll_try en job st =
     (case to_str job of
        Inl err \<Rightarrow> (Inl err, st)
      | Inr j \<Rightarrow>
          (let (r, st1) = fetch en (get_req (status_url j)) st in
           case r of
             NetworkError \<Rightarrow> (Inl FetchFailed, st1)
           | Resolved res \<Rightarrow>
               if \<not> ok res then (Inl (Err ''Status error''), st1)
               else
                 (case json_body res of
                    None \<Rightarrow> (Inl JsonSyntax, st1)
                  | Some s \<Rightarrow> (get_prop s (js ''ready''), st1))))"

definition poll :: "env \<Rightarrow> jsval \<Rightarrow> page \<Rightarrow> page" where
  "poll en job st =
     (case poll_try en job st of
        (Inl err, st1) \<Rightarrow>
          setTimeout job 3000
            (set_status (js ''Waiting for backend...'') (emit (ConsoleError err) st1))
      | (Inr ready, st1) \<Rightarrow>
          if \<not> truthy ready then
            setTimeout job 2000 (set_status (js ''Running pipeline...'') st1)
          else render en job (set_status (js ''Rendering diagram...'') st1))"

definition run_try :: "env \<Rightarrow> jsstring \<Rightarrow> page \<Rightarrow> (js_error + jsval) \<times> page" where
  "run_try en repo_v st =
     (case encodeURIComponent repo_v of
        Inl err \<Rightarrow> (Inl err, st)
      | Inr q \<Rightarrow>
          (let (r, st1) = fetch en (post_req (run_url q)) st in
           case r of
             NetworkError \<Rightarrow> (Inl FetchFailed, st1)
           | Resolved res \<Rightarrow>
               if \<not> ok res then (Inl (RunFailed (status res)), st1)
               else
                 (case json_body res of
                    None \<Rightarrow> (Inl JsonSyntax, st1)
                  | Some data \<Rightarrow> (get_prop data (js ''job_id''), st1))))"

definition run :: "env \<Rightarrow> page \<Rightarrow> page" where
  "run en st =
     (let repo_v = trim (repo st) in
      if repo_v = [] then emit (Alerted (js ''Please enter a repository URL'')) st
      else
        (case run_try en repo_v
                (set_status (js ''Waking up server (may take ~30 seconds)...'') st) of
           (Inl err, st1) \<Rightarrow>
             set_status (js ''Failed to connect to backend.'') (emit (ConsoleError err) st1)
         | (Inr job_id, st1) \<Rightarrow> poll en job_id st1))"

text \<open>
  \<^verbatim>\<open>save(blob, name)\<close>: the anchor is appended to the document body, clicked and
  removed again; what remains is the download of \<open>blob\<close> under \<open>name\<close>.
  \<^verbatim>\<open>URL.createObjectURL(null)\<close> throws a TypeError before anything is appended.
\<close>

definition save :: "blob option \<Rightarrow> jsstring \<Rightarrow> page \<Rightarrow> page" where
  "save b name st =
     (case b of None \<Rightarrow> emit (Uncaught NullAccess) st | Some bl \<Rightarrow> emit (Saved name bl) st)"

definition downloadSVG :: "page \<Rightarrow> page" where
  "downloadSVG st =
     (case currentSVG st of
        None \<Rightarrow> st
      | Some el \<Rightarrow>
          save (Some \<lparr>bytes = utf8_encode (outerHTML el),
                      mime = js ''image/svg+xml;charset=utf-8''\<rparr>)
            (js ''architecture.svg'') st)"

text \<open>
  \<^verbatim>\<open>downloadPNG()\<close> with its callbacks run: \<^verbatim>\<open>img.onload\<close> when the image loads, then
  the callback of \<^verbatim>\<open>canvas.toBlob\<close>.
\<close>

definition downloadPNG :: "env \<Rightarrow> page \<Rightarrow> page" where
  "downloadPNG en st =
     (case currentSVG st of
        None \<Rightarrow> st
      | Some el \<Rightarrow>
          (let svgData = serializeToString en el;
               svgBlob = \<lparr>bytes = utf8_encode svgData,
                          mime = js ''image/svg+xml;charset=utf-8''\<rparr>
           in case rasterize en svgBlob of
                LoadFails \<Rightarrow> st
              | Drawn b \<Rightarrow> save b (js ''architecture.png'') st))"

text \<open>
  The browser's timer loop for a page on which one run is in progress: it fires the
  oldest pending callback, \<open>n\<close> times at most, and stops when none is pending. The
  callback is always \<^verbatim>\<open>() => poll(job)\<close>, with the \<open>poll\<close> of the script the page loaded.
\<close>

fun run_timers :: "(jsval \<Rightarrow> page \<Rightarrow> page) \<Rightarrow> nat \<Rightarrow> page \<Rightarrow> page" where
  "run_timers p 0 st = st"
| "run_timers p (Suc n) st =
     (case timers st of
        [] \<Rightarrow> st
      | (ms, job) # rest \<Rightarrow> run_timers p n (p job (st\<lparr>timers := rest\<rparr>)))"

section \<open>\<^verbatim>\<open>arch-web-app/frontend/main.js\<close>, second script\<close>

text \<open>
  The second script has no \<^verbatim>\<open>try\<close> and no \<^verbatim>\<open>catch\<close>: an exception or a rejected
  \<^verbatim>\<open>await\<close> rejects the promise of the \<^verbatim>\<open>async\<close> function, which no caller awaits or
  handles. Its URLs are relative to the page.
\<close>

definition render_2 :: "env \<Rightarrow> jsval \<Rightarrow> page \<Rightarrow> page" where
  "render_2 en job st =
     (let st0 = emit (Invoked ''render'' job) st in
      case to_str job of
        Inl err \<Rightarrow> emit (Uncaught err) st0
      | Inr j \<Rightarrow>
          (let (r, st1) = fetch en (get_req (js ''/result/'' @ j @ js ''/dot'')) st0 in
           case r of
             NetworkError \<Rightarrow> emit (Uncaught FetchFailed) st1
           | Resolved res \<Rightarrow>
               (case renderSVGElement en (text_body res) of
                  Inl msg \<Rightarrow> emit (Uncaught (VizFailed msg)) st1
                | Inr markup \<Rightarrow>
                    (let el = \<lparr>ident = next_id st1, outerHTML = markup\<rparr>;
                         st2 = st1\<lparr>next_id := Suc (next_id st1), currentSVG := Some el\<rparr>;
                         st3 = st2\<lparr>diagram := []\<rparr>
                     in st3\<lparr>diagram := diagram st3 @ [el]\<rparr>))))"

definition poll_2 :: "env \<Rightarrow> jsval \<Rightarrow> page \<Rightarrow> page" where
  "poll_2 en job st =
     (case to_str job of
        Inl err \<Rightarrow> emit (Uncaught err) st
      | Inr j \<Rightarrow>
          (let (r, st1) = fetch en (get_req (js ''/status/'' @ j)) st in
           case r of
             NetworkError \<Rightarrow> emit (Uncaught FetchFailed) st1
           | Resolved res \<Rightarrow>
               (case json_body res of
                  None \<Rightarrow> emit (Uncaught JsonSyntax) st1
                | Some s \<Rightarrow>
                    (case get_prop s (js ''ready'') of
                       Inl err \<Rightarrow> emit (Uncaught err) st1
                     | Inr ready \<Rightarrow>
                         if \<not> truthy ready then setTimeout job 2000 st1
                         else render_2 en job (set_status (js ''Rendering diagram...'') st1)))))"

definition run_2 :: "env \<Rightarrow> page \<Rightarrow> page" where
  "run_2 en st =
     (let repo_v = repo st;
          st0 = set_status (js ''Running pipeline...'') st in
      case encodeURIComponent repo_v of
        Inl err \<Rightarrow> emit (Uncaught err) st0
      | Inr q \<Rightarrow>
          (let (r, st1) = fetch en (post_req (js ''/run?repo_url='' @ q)) st0 in
           case r of
             NetworkError \<Rightarrow> emit (Uncaught FetchFailed) st1
           | Resolved res \<Rightarrow>
               (case json_body res of
                  None \<Rightarrow> emit (Uncaught JsonSyntax) st1
                | Some data \<Rightarrow>
                    (case get_prop data (js ''job_id'') of
                       Inl err \<Rightarrow> emit (Uncaught err) st1
                     | Inr job_id \<Rightarrow> poll_2 en job_id st1))))"

definition save_2 :: "blob option \<Rightarrow> jsstring \<Rightarrow> page \<Rightarrow> page" where
  "save_2 b name st =
     (case b of None \<Rightarrow> emit (Uncaught NullAccess) st | Some bl \<Rightarrow> emit (Saved name bl) st)"

text \<open>With \<^verbatim>\<open>currentSVG\<close> still \<^verbatim>\<open>null\<close>, reading \<^verbatim>\<open>currentSVG.outerHTML\<close> throws.\<close>

definition downloadSVG_2 :: "page \<Rightarrow> page" where
  "downloadSVG_2 st =
     (case currentSVG st of
        None \<Rightarrow> emit (Uncaught NullAccess) st
      | Some el \<Rightarrow>
          save_2 (Some \<lparr>bytes = utf8_encode (outerHTML el), mime = js ''image/svg+xml''\<rparr>)
            (js ''architecture.svg'') st)"

definition downloadPNG_2 :: "env \<Rightarrow> page \<Rightarrow> page" where
  "downloadPNG_2 en st =
     (case currentSVG st of
        None \<Rightarrow> emit (Uncaught NullAccess) st
      | Some el \<Rightarrow>
          (case rasterize en \<lparr>bytes = utf8_encode (serializeToString en el),
                               mime = js ''image/svg+xml''\<rparr> of
             LoadFails \<Rightarrow> st
           | Drawn b \<Rightarrow> save_2 b (js ''architecture.png'') st))"

section \<open>\<^verbatim>\<open>arch-web-app/frontend/main.js\<close>, third script\<close>

definition API :: jsstring where
  "API = js ''https://arch-repo.onrender.com''"

definition run_3 :: "env \<Rightarrow> page \<Rightarrow> page" where
  "run_3 en st =
     (let repo_v = repo st in
      case encodeURIComponent repo_v of
        Inl err \<Rightarrow> emit (Uncaught err) st
      | Inr q \<Rightarrow>
          (let (r, st1) = fetch en (post_req (API @ js ''/run?repo_url='' @ q)) st in
           case r of
             NetworkError \<Rightarrow> emit (Uncaught FetchFailed) st1
           | Resolved res \<Rightarrow>
               (case json_body res of
                  None \<Rightarrow> emit (Uncaught JsonSyntax) st1
                | Some j \<Rightarrow>
                    (case get_prop j (js ''job_id'') of
                       Inl err \<Rightarrow> emit (Uncaught err) st1
                     | Inr job_id \<Rightarrow>
                         (case to_str job_id of
                            Inl err \<Rightarrow> emit (Uncaught err) st1
                          | Inr s \<Rightarrow> st1\<lparr>out_text := js ''Job ID: '' @ s\<rparr>)))))"

section \<open>\<^verbatim>\<open>unnamed/part_000\<close>\<close>

definition RENDER_URL :: jsstring where
  "RENDER_URL = js ''https://arch-repoo.onrender.com''"

definition dot_url :: "jsstring \<Rightarrow> jsstring" where
  "dot_url j = RENDER_URL @ js ''/result/'' @ j @ js ''/dot''"

text \<open>The request of the submission, for the value of the \<^verbatim>\<open>#repo\<close> input.\<close>

definition run_req_p :: "jsstring \<Rightarrow> request" where
  "run_req_p repo_v =
     \<lparr>meth = POST, url = RENDER_URL @ js ''/run'',
      headers = [(js ''Content-Type'', js ''application/json'')],
      body = Some (stringify_repo_url repo_v)\<rparr>"

text \<open>
  \<^verbatim>\<open>renderDot(dot)\<close> starts the rendering and returns; \<open>renderDot_then\<close> is what the
  \<^verbatim>\<open>then\<close> and \<^verbatim>\<open>catch\<close> callbacks do once the promise of the library settles, after
  the caller has run on. \<open>renderDot\<close> is a call with its callbacks run.
\<close>

definition renderDot_then :: "env \<Rightarrow> jsstring \<Rightarrow> page \<Rightarrow> page" where
  "renderDot_then en dot st =
     (case renderSVGElement en dot of
        Inl msg \<Rightarrow> set_status msg st
      | Inr markup \<Rightarrow>
          (let el = \<lparr>ident = next_id st, outerHTML = markup\<rparr>;
               st1 = st\<lparr>next_id := Suc (next_id st)\<rparr>;
               st2 = st1\<lparr>diagram := []\<rparr>
           in st2\<lparr>diagram := diagram st2 @ [el]\<rparr>))"

definition renderDot :: "env \<Rightarrow> jsstring \<Rightarrow> page \<Rightarrow> page" where
  "renderDot en dot st = renderDot_then en dot (emit (Invoked ''renderDot'' (JStr dot)) st)"

definition poll_p :: "env \<Rightarrow> jsval \<Rightarrow> page \<Rightarrow> page" where
  "poll_p en jobId st =
     (let st0 = set_status (js ''Processing repository...'') st in
      case to_str jobId of
        Inl err \<Rightarrow> emit (Uncaught err) st0
      | Inr j \<Rightarrow>
          (let (r, st1) = fetch en (get_req (dot_url j)) st0 in
           case r of
             NetworkError \<Rightarrow> emit (Uncaught FetchFailed) st1
           | Resolved res \<Rightarrow>
               if \<not> ok res then setTimeout jobId 2000 st1
               else
                 (let st2 = st1\<lparr>currentDot := text_body res\<rparr>;
                      st3 = emit (Invoked ''renderDot'' (JStr (currentDot st2))) st2;
                      st4 = set_status done_text st3
                  in renderDot_then en (currentDot st2) st4)))"

definition run_p :: "env \<Rightarrow> page \<Rightarrow> page" where
  "run_p en st =
     (let repo_v = repo st;
          (r, st1) = fetch en (run_req_p repo_v) (set_status (js ''Running pipeline...'') st) in
      case r of
        NetworkError \<Rightarrow> emit (Uncaught FetchFailed) st1
      | Resolved res \<Rightarrow>
          (case json_body res of
             None \<Rightarrow> emit (Uncaught JsonSyntax) st1
           | Some data \<Rightarrow>
               (case get_prop data (js ''job_id'') of
                  Inl err \<Rightarrow> emit (Uncaught err) st1
                | Inr jobId \<Rightarrow> poll_p en jobId st1)))"

definition download :: "blob \<Rightarrow> jsstring \<Rightarrow> page \<Rightarrow> page" where
  "download b filename st = emit (Saved filename b) st"

definition downloadSVG_p :: "page \<Rightarrow> page" where
  "downloadSVG_p st =
     download \<lparr>bytes = utf8_encode (currentDot st), mime = js ''image/svg+xml''\<rparr>
       (js ''architecture.svg'') st"

definition downloadPNG_p :: "env \<Rightarrow> page \<Rightarrow> page" where
  "downloadPNG_p en st =
     (case renderImageElement en (currentDot st) of
        Inl msg \<Rightarrow> emit (Uncaught (VizFailed msg)) st
      | Inr src \<Rightarrow>
          (let (r, st1) = fetch en (get_req src) st in
           case r of
             NetworkError \<Rightarrow> emit (Uncaught FetchFailed) st1
           | Resolved res \<Rightarrow> download (blob_body res) (js ''architecture.png'') st1))"

section \<open>Backends for concrete runs\<close>

text \<open>
  A backend that answers the \<open>n\<close>-th request with the \<open>n\<close>-th entry of a script, whatever
  the request, and fails at the network once the script is used up; a rendering
  library that wraps a non-empty description in \<^verbatim>\<open><svg>\<close> tags and rejects the empty
  one; a serializer that gives the markup; a canvas that always gives a blob.
\<close>

definition reply :: "nat \<Rightarrow> jsstring \<Rightarrow> jsval option \<Rightarrow> fetch_result" where
  "reply code t j =
     Resolved \<lparr>status = code, text_body = t, json_body = j,
               blob_body = \<lparr>bytes = utf8_encode t, mime = []\<rparr>\<rparr>"

definition scripted :: "fetch_result list \<Rightarrow> nat \<Rightarrow> request \<Rightarrow> fetch_result" where
  "scripted rs n rq = (if n < length rs then rs ! n else NetworkError)"

definition test_env :: "fetch_result list \<Rightarrow> env" where
  "test_env rs =
     \<lparr>backend = scripted rs,
      renderSVGElement =
        (\<lambda>dot. if dot = [] then Inl (js ''Error: syntax error'')
               else Inr (js ''<svg>'' @ dot @ js ''</svg>'')),
      renderImageElement =
        (\<lambda>dot. if dot = [] then Inl (js ''Error: syntax error'')
               else Inr (js ''data:image/png,'' @ dot)),
      serializeToString = outerHTML,
      rasterize = (\<lambda>b. Drawn (Some \<lparr>bytes = [0x89, 0x50, 0x4E, 0x47] @ bytes b,
                                      mime = js ''image/png''\<rparr>))\<rparr>"

definition job_reply :: "jsstring \<Rightarrow> fetch_result" where
  "job_reply j = reply 200 [] (Some (JObj [(js ''job_id'', JStr j)]))"

definition ready_reply :: "bool \<Rightarrow> fetch_result" where
  "ready_reply b = reply 200 [] (Some (JObj [(js ''ready'', JBool b)]))"



definition same_dot :: env where
  "same_dot = test_env [reply 200 (js ''digraph{}'') None, reply 200 (js ''digraph{}'') None]"

definition full_script :: env where
  "full_script =
     test_env [job_reply (js ''j1''), ready_reply False, ready_reply True,
               reply 200 (js ''digraph{}'') None]"

definition full_script_p :: env where
  "full_script_p =
     test_env [job_reply (js ''j1''), reply 404 [] None, reply 200 (js ''digraph{}'') None]"

section \<open>Observations on a page\<close>

fun requests :: "event list \<Rightarrow> request list" where
  "requests [] = []"
| "requests (Fetched rq r # es) = rq # requests es"
| "requests (e # es) = requests es"

fun saved :: "event list \<Rightarrow> (jsstring \<times> blob) list" where
  "saved [] = []"
| "saved (Saved name b # es) = (name, b) # saved es"
| "saved (e # es) = saved es"

fun uncaught :: "event list \<Rightarrow> js_error list" where
  "uncaught [] = []"
| "uncaught (Uncaught err # es) = err # uncaught es"
| "uncaught (e # es) = uncaught es"

fun is_entry :: "string \<Rightarrow> event \<Rightarrow> bool" where
  "is_entry f (Invoked g v) = (g = f)"
| "is_entry f e = False"

definition invocations :: "string \<Rightarrow> event list \<Rightarrow> nat" where
  "invocations f es = length (filter (is_entry f) es)"

definition is_post :: "request \<Rightarrow> bool" where
  "is_post rq = (meth rq = POST)"

definition posts :: "event list \<Rightarrow> request list" where
  "posts es = filter is_post (requests es)"



text \<open>The response is a success whose JSON body has a truthy \<^verbatim>\<open>ready\<close>.\<close>

definition reports_ready :: "fetch_result \<Rightarrow> bool" where
  "reports_ready r =
     (case r of
        NetworkError \<Rightarrow> False
      | Resolved res \<Rightarrow>
          ok res \<and>
          (case json_body res of
             None \<Rightarrow> False
           | Some s \<Rightarrow>
               (case get_prop s (js ''ready'') of Inl err \<Rightarrow> False | Inr v \<Rightarrow> truthy v)))"

definition is_ok :: "fetch_result \<Rightarrow> bool" where
  "is_ok r = (case r of NetworkError \<Rightarrow> False | Resolved res \<Rightarrow> ok res)"

definition is_not_ok :: "fetch_result \<Rightarrow> bool" where
  "is_not_ok r = (case r of NetworkError \<Rightarrow> False | Resolved res \<Rightarrow> \<not> ok res)"

definition answer_text :: "fetch_result \<Rightarrow> jsstring" where
  "answer_text r = (case r of NetworkError \<Rightarrow> [] | Resolved res \<Rightarrow> text_body res)"





text \<open>
  \<open>gated rep res seen es\<close>: in the events \<open>es\<close>, every request that satisfies \<open>res\<close>
  comes after a request and response that satisfy \<open>rep\<close>; \<open>seen\<close> says whether one
  came before \<open>es\<close>.
\<close>

fun gated ::
  "(request \<Rightarrow> fetch_result \<Rightarrow> bool) \<Rightarrow> (request \<Rightarrow> bool) \<Rightarrow> bool \<Rightarrow> event list \<Rightarrow> bool" where
  "gated rep res seen [] = True"
| "gated rep res seen (Fetched rq r # es) =
     (if res rq then seen \<and> gated rep res seen es
      else gated rep res (seen \<or> rep rq r) es)"
| "gated rep res seen (e # es) = gated rep res seen es"

text \<open>
  \<open>entered_after f good prev es\<close>: in the events \<open>es\<close>, every entry into \<open>f\<close> comes
  right after a request and its response, and \<open>good\<close> holds of the argument of the
  entry, that request and that response; \<open>prev\<close> is the request and response right
  before \<open>es\<close>, if the event before \<open>es\<close> was one.
\<close>

fun entered_after ::
  "string \<Rightarrow> (jsval \<Rightarrow> request \<Rightarrow> fetch_result \<Rightarrow> bool) \<Rightarrow> (request \<times> fetch_result) option \<Rightarrow>
   event list \<Rightarrow> bool" where
  "entered_after f good prev [] = True"
| "entered_after f good prev (Fetched rq r # es) = entered_after f good (Some (rq, r)) es"
| "entered_after f good prev (Invoked g v # es) =
     ((if g = f then (case prev of None \<Rightarrow> False | Some (rq, r) \<Rightarrow> good v rq r) else True) \<and>
      entered_after f good None es)"
| "entered_after f good prev (e # es) = entered_after f good None es"

text \<open>
  For an entry into \<^verbatim>\<open>render(job)\<close> of the first script: the request before it is the
  GET of the status of that job, and its answer reports the job ready.
\<close>

definition status_probe :: "jsval \<Rightarrow> request \<Rightarrow> fetch_result \<Rightarrow> bool" where
  "status_probe job rq r =
     (case to_str job of
        Inl err \<Rightarrow> False
      | Inr j \<Rightarrow> rq = get_req (status_url j) \<and> reports_ready r)"

text \<open>
  For an entry into \<^verbatim>\<open>renderDot(dot)\<close> of part_000, in a run whose submission gave the
  job \<open>jo\<close>: the request before it is the GET of the result of that job, its answer is
  a success, and \<open>dot\<close> is the text of that answer.
\<close>

definition result_probe :: "jsstring option \<Rightarrow> jsval \<Rightarrow> request \<Rightarrow> fetch_result \<Rightarrow> bool" where
  "result_probe jo dot rq r =
     (case jo of
        None \<Rightarrow> False
      | Some j \<Rightarrow> rq = get_req (dot_url j) \<and> is_ok r \<and> dot = JStr (answer_text r))"

text \<open>The \<^verbatim>\<open>job_id\<close> that the submit operations read from a response, when they can.\<close>

definition job_of :: "fetch_result \<Rightarrow> jsval option" where
  "job_of r =
     (case r of
        NetworkError \<Rightarrow> None
      | Resolved res \<Rightarrow>
          (case json_body res of
             None \<Rightarrow> None
           | Some data \<Rightarrow>
               (case get_prop data (js ''job_id'') of Inl err \<Rightarrow> None | Inr j \<Rightarrow> Some j)))"

text \<open>The string of a job in a URL, when the job converts to one.\<close>

definition job_string :: "jsval \<Rightarrow> jsstring option" where
  "job_string job = (case to_str job of Inl err \<Rightarrow> None | Inr j \<Rightarrow> Some j)"

definition submitted_job :: "fetch_result \<Rightarrow> jsstring option" where
  "submitted_job r = (case job_of r of None \<Rightarrow> None | Some job \<Rightarrow> job_string job)"

definition status_report :: "jsstring \<Rightarrow> request \<Rightarrow> fetch_result \<Rightarrow> bool" where
  "status_report u rq r = (url rq = u \<and> reports_ready r)"

definition any_report :: "request \<Rightarrow> fetch_result \<Rightarrow> bool" where
  "any_report rq r = reports_ready r"

definition request_to :: "jsstring \<Rightarrow> request \<Rightarrow> bool" where
  "request_to u rq = (url rq = u)"

text \<open>
  What a user sees of a rendering: the markup of the children of the diagram
  container, the markup of the current image, and the status text. The identity of
  the elements is left out.
\<close>

definition visible :: "page \<Rightarrow> jsstring list \<times> jsstring option \<times> jsstring" where
  "visible st = (map outerHTML (diagram st), map_option outerHTML (currentSVG st), status_text st)"

text \<open>
  The backend answers the request of \<^verbatim>\<open>render(job)\<close> for the result the same when \<open>c\<close>
  and when \<open>c + 1\<close> requests have been issued before it. A job that does not convert
  to a string leads to no request.
\<close>

definition same_answer :: "env \<Rightarrow> nat \<Rightarrow> jsval \<Rightarrow> bool" where
  "same_answer en c job =
     (case to_str job of
        Inl err \<Rightarrow> True
      | Inr j \<Rightarrow> backend en (Suc c) (get_req (result_url j)) = backend en c (get_req (result_url j)))"

section \<open>Properties\<close>

subsection \<open>Events and their observations\<close>

lemma requests_append: "requests (xs @ ys) = requests xs @ requests ys"
  by (induction xs rule: requests.induct) simp_all

lemma saved_append: "saved (xs @ ys) = saved xs @ saved ys"
  by (induction xs rule: saved.induct) simp_all

lemma uncaught_append: "uncaught (xs @ ys) = uncaught xs @ uncaught ys"
  by (induction xs rule: uncaught.induct) simp_all

lemma invocations_append:
  "invocations f (xs @ ys) = invocations f xs + invocations f ys"
  by (simp add: invocations_def)

lemma invocations_Cons:
  "invocations f [] = 0"
  "invocations f (Fetched rq r # es) = invocations f es"
  "invocations f (Alerted msg # es) = invocations f es"
  "invocations f (ConsoleError err # es) = invocations f es"
  "invocations f (Saved name b # es) = invocations f es"
  "invocations f (Uncaught err # es) = invocations f es"
  "invocations f (Invoked g v # es) = (if g = f then Suc (invocations f es) else invocations f es)"
  by (simp_all add: invocations_def)

lemma posts_append: "posts (xs @ ys) = posts xs @ posts ys"
  by (simp add: posts_def requests_append)

lemma posts_Cons:
  "posts [] = []"
  "posts (Fetched rq r # es) = (if meth rq = POST then rq # posts es else posts es)"
  "posts (Alerted msg # es) = posts es"
  "posts (ConsoleError err # es) = posts es"
  "posts (Saved name b # es) = posts es"
  "posts (Uncaught err # es) = posts es"
  "posts (Invoked f v # es) = posts es"
  by (simp_all add: posts_def is_post_def)



subsection \<open>Export\<close>

lemma save_frame:
  "currentSVG (save b name st) = currentSVG st \<and> diagram (save b name st) = diagram st"
  by (simp add: save_def emit_def split: option.split)

text \<open>
  In the first script of main.js, the vector export of a page that holds a current
  image saves one file more, whose bytes are the markup of that image in UTF-8.
\<close>

lemma downloadSVG_bytes:
  "currentSVG st = Some el \<Longrightarrow>
     saved (events (downloadSVG st)) =
       saved (events st) @
       [(js ''architecture.svg'',
         \<lparr>bytes = utf8_encode (outerHTML el), mime = js ''image/svg+xml;charset=utf-8''\<rparr>)]"
  by (simp add: downloadSVG_def save_def emit_def saved_append)

text \<open>
  C1. The vector export must save the serialization of the rendered image, not the
  graph description. \<^verbatim>\<open>downloadSVG\<close> of part_000 does not: after a run of part_000
  that rendered the description \<^verbatim>\<open>digraph{}\<close> to the markup
  \<^verbatim>\<open><svg>digraph{}</svg>\<close>, the file it saves as \<^verbatim>\<open>architecture.svg\<close> holds the
  bytes of the description, which are not the bytes of the markup.
\<close>

theorem downloadSVG_p_saves_description:
  "map outerHTML (diagram (run_p (test_env [job_reply (js ''j1''), reply 200 (js ''digraph{}'') None])
      (init_page (js ''x''))))
     = [js ''<svg>digraph{}</svg>''] \<and>
   saved (events (downloadSVG_p
      (run_p (test_env [job_reply (js ''j1''), reply 200 (js ''digraph{}'') None])
         (init_page (js ''x'')))))
     = [(js ''architecture.svg'',
         \<lparr>bytes = utf8_encode (js ''digraph{}''), mime = js ''image/svg+xml''\<rparr>)] \<and>
   utf8_encode (js ''digraph{}'') = [0x64, 0x69, 0x67, 0x72, 0x61, 0x70, 0x68, 0x7B, 0x7D] \<and>
   utf8_encode (js ''digraph{}'') \<noteq> utf8_encode (js ''<svg>digraph{}</svg>'')"
proof -
  have d: "js ''digraph{}'' \<noteq> []" "js ''<svg>'' @ js ''digraph{}'' @ js ''</svg>'' = js ''<svg>digraph{}</svg>''"
    by (simp_all add: js_def)
  have r: "currentDot (run_p (test_env [job_reply (js ''j1''), reply 200 (js ''digraph{}'') None])
             (init_page (js ''x''))) = js ''digraph{}''"
     "map outerHTML (diagram (run_p (test_env [job_reply (js ''j1''), reply 200 (js ''digraph{}'') None])
             (init_page (js ''x'')))) = [js ''<svg>digraph{}</svg>'']"
     "saved (events (run_p (test_env [job_reply (js ''j1''), reply 200 (js ''digraph{}'') None])
             (init_page (js ''x'')))) = []"
    by (simp_all add: run_p_def poll_p_def renderDot_then_def fetch_def
      test_env_def scripted_def job_reply_def reply_def init_page_def set_status_def emit_def
      ok_def Let_def d)
  have u: "utf8_encode (js ''digraph{}'') = [0x64, 0x69, 0x67, 0x72, 0x61, 0x70, 0x68, 0x7B, 0x7D]"
    by (simp add: js_def utf8_def is_lead_def is_trail_def)
  have v: "utf8_encode (js ''digraph{}'') \<noteq> utf8_encode (js ''<svg>digraph{}</svg>'')"
    unfolding u by (simp add: js_def utf8_def is_lead_def is_trail_def)
  show ?thesis
    using r u v by (simp add: downloadSVG_p_def download_def emit_def saved_append)
qed

text \<open>
  In the first script of main.js, both export operations leave a page with no current
  image as it is.
\<close>

lemma export_before_render:
  "currentSVG st = None \<Longrightarrow> downloadSVG st = st \<and> downloadPNG en st = st"
  by (simp add: downloadSVG_def downloadPNG_def)

text \<open>
  C5. An export before any successful render must produce no file.
  \<^verbatim>\<open>downloadSVG\<close> of part_000 on a page just loaded saves an empty file
  \<^verbatim>\<open>architecture.svg\<close>.
\<close>

theorem downloadSVG_p_before_render:
  "saved (events (downloadSVG_p (init_page []))) =
     [(js ''architecture.svg'', \<lparr>bytes = [], mime = js ''image/svg+xml''\<rparr>)]"
  by (simp add: downloadSVG_p_def download_def init_page_def emit_def)

text \<open>
  C10. In the first script of main.js, neither export operation changes the
  module-level current image \<^verbatim>\<open>currentSVG\<close> or the children of the diagram container,
  whatever the state and whatever the image pipeline does.
\<close>

theorem export_preserves_image:
  "currentSVG (downloadSVG st) = currentSVG st \<and> diagram (downloadSVG st) = diagram st \<and>
   currentSVG (downloadPNG en st) = currentSVG st \<and> diagram (downloadPNG en st) = diagram st"
  by (simp add: downloadSVG_def downloadPNG_def save_frame Let_def
      split: option.split raster.split)

subsection \<open>Submission\<close>

text \<open>
  In the first script of main.js, a submission with a blank repository URL issues no
  request, and a response with a status that is not a success ends in the error text.
\<close>

lemma run_blank_no_request:
  "trim (repo st) = [] \<Longrightarrow>
     requests (events (run en st)) = requests (events st) \<and> nreq (run en st) = nreq st"
  by (simp add: run_def emit_def requests_append)

lemma run_http_error_shown:
  assumes "trim (repo st) \<noteq> []"
    and "encodeURIComponent (trim (repo st)) = Inr q"
    and "is_not_ok (backend en (nreq st) (post_req (run_url q)))"
  shows "status_text (run en st) = js ''Failed to connect to backend.''"
  using assms
  by (auto simp add: run_def run_try_def fetch_def set_status_def emit_def is_not_ok_def Let_def
      split: fetch_result.splits)

text \<open>
  C2. A submission with an empty repository URL must issue no request. \<^verbatim>\<open>run\<close> of the
  second and third scripts of main.js and of part_000 has no check of the URL: with an
  empty \<^verbatim>\<open>#repo\<close> field each of them issues its POST.
\<close>

theorem blank_submit_issues_request:
  "requests (events (run_2 (test_env []) (init_page []))) =
     [\<lparr>meth = POST, url = js ''/run?repo_url='', headers = [], body = None\<rparr>] \<and>
   requests (events (run_3 (test_env []) (init_page []))) =
     [\<lparr>meth = POST, url = js ''https://arch-repo.onrender.com/run?repo_url='',
       headers = [], body = None\<rparr>] \<and>
   map url (requests (events (run_p (test_env []) (init_page [])))) =
     [js ''https://arch-repoo.onrender.com/run'']"
  by (simp add: run_2_def run_3_def run_p_def run_req_p_def post_req_def fetch_def test_env_def
      scripted_def init_page_def set_status_def emit_def API_def RENDER_URL_def js_def)

text \<open>
  C3. A submission answered with HTTP 500 must end in a visible error state.
  \<^verbatim>\<open>run\<close> of the second script of main.js and of part_000 does not look at the status:
  with a 500 whose body is not JSON the promise of \<^verbatim>\<open>run\<close> is rejected with no handler,
  nothing is scheduled, and the status text stays the one set before the request.
\<close>

theorem run_2_http_500_keeps_status:
  "status_text (run_2 (test_env [reply 500 (js ''Internal Server Error'') None])
      (init_page (js ''x''))) = js ''Running pipeline...'' \<and>
   timers (run_2 (test_env [reply 500 (js ''Internal Server Error'') None])
      (init_page (js ''x''))) = [] \<and>
   uncaught (events (run_2 (test_env [reply 500 (js ''Internal Server Error'') None])
      (init_page (js ''x'')))) = [JsonSyntax] \<and>
   status_text (run_p (test_env [reply 500 (js ''Internal Server Error'') None])
      (init_page (js ''x''))) = js ''Running pipeline...''"
proof -
  have e: "encodeURIComponent (repo (init_page (js ''x''))) = Inr (js ''x'')"
    by (simp add: init_page_def js_def unreserved_def)
  show ?thesis
    by (simp add: run_2_def run_p_def e fetch_def test_env_def scripted_def reply_def
        set_status_def emit_def Let_def) (simp add: init_page_def)
qed

text \<open>Only the submission issues a POST: polling and rendering issue GET requests.\<close>

lemma render_posts: "posts (events (render en job st)) = posts (events st)"
  by (auto simp add: render_def render_try_def fetch_def emit_def set_status_def Let_def
      posts_append posts_Cons get_req_def split: fetch_result.splits sum.splits)

lemma poll_posts: "posts (events (poll en job st)) = posts (events st)"
  by (auto simp add: poll_def poll_try_def fetch_def emit_def set_status_def setTimeout_def
      Let_def posts_append posts_Cons get_req_def render_posts
      split: fetch_result.splits option.splits sum.splits)

lemma render_2_posts: "posts (events (render_2 en job st)) = posts (events st)"
  by (auto simp add: render_2_def fetch_def emit_def Let_def
      posts_append posts_Cons get_req_def split: fetch_result.splits sum.splits)

lemma poll_2_posts: "posts (events (poll_2 en job st)) = posts (events st)"
  by (auto simp add: poll_2_def fetch_def emit_def set_status_def setTimeout_def
      Let_def posts_append posts_Cons get_req_def render_2_posts
      split: fetch_result.splits option.splits sum.splits)

lemma poll_p_posts: "posts (events (poll_p en job st)) = posts (events st)"
  by (auto simp add: poll_p_def renderDot_then_def fetch_def emit_def set_status_def setTimeout_def
      Let_def posts_append posts_Cons get_req_def
      split: fetch_result.splits option.splits sum.splits)

lemma run_posts:
  assumes "trim (repo st) \<noteq> []" and "encodeURIComponent (trim (repo st)) = Inr q"
  shows "posts (events (run en st)) = posts (events st) @ [post_req (run_url q)]"
  using assms
  by (auto simp add: run_def run_try_def fetch_def emit_def set_status_def Let_def
      posts_append posts_Cons post_req_def poll_posts
      split: fetch_result.splits option.splits sum.splits)

lemma run_2_posts:
  assumes "encodeURIComponent (repo st) = Inr q"
  shows "posts (events (run_2 en st)) = posts (events st) @ [post_req (js ''/run?repo_url='' @ q)]"
  using assms
  by (auto simp add: run_2_def fetch_def emit_def set_status_def Let_def
      posts_append posts_Cons post_req_def poll_2_posts
      split: fetch_result.splits option.splits sum.splits)

lemma run_3_posts:
  assumes "encodeURIComponent (repo st) = Inr q"
  shows "posts (events (run_3 en st)) =
         posts (events st) @ [post_req (API @ js ''/run?repo_url='' @ q)]"
  using assms
  by (auto simp add: run_3_def fetch_def emit_def Let_def
      posts_append posts_Cons post_req_def split: fetch_result.splits option.splits sum.splits)

lemma run_p_posts:
  "posts (events (run_p en st)) = posts (events st) @ [run_req_p (repo st)]"
  by (auto simp add: run_p_def fetch_def emit_def set_status_def Let_def
      posts_append posts_Cons run_req_p_def poll_p_posts
      split: fetch_result.splits option.splits sum.splits)

lemma run_reads_job_id:
  assumes "trim (repo st) \<noteq> []" and "encodeURIComponent (trim (repo st)) = Inr q"
    and "is_ok (backend en (nreq st) (post_req (run_url q)))"
    and "job_of (backend en (nreq st) (post_req (run_url q))) = Some job"
  shows "run en st =
         poll en job (snd (fetch en (post_req (run_url q))
           (set_status (js ''Waking up server (may take ~30 seconds)...'') st)))"
  using assms
  by (auto simp add: run_def run_try_def fetch_def set_status_def Let_def is_ok_def job_of_def
      split: fetch_result.splits option.splits sum.splits)

lemma run_2_reads_job_id:
  assumes "encodeURIComponent (repo st) = Inr q"
    and "job_of (backend en (nreq st) (post_req (js ''/run?repo_url='' @ q))) = Some job"
  shows "run_2 en st =
         poll_2 en job (snd (fetch en (post_req (js ''/run?repo_url='' @ q))
           (set_status (js ''Running pipeline...'') st)))"
  using assms
  by (auto simp add: run_2_def fetch_def set_status_def Let_def job_of_def
      split: fetch_result.splits option.splits sum.splits)

lemma run_3_reads_job_id:
  assumes "encodeURIComponent (repo st) = Inr q"
    and "job_of (backend en (nreq st) (post_req (API @ js ''/run?repo_url='' @ q))) = Some job"
    and "to_str job = Inr s"
  shows "out_text (run_3 en st) = js ''Job ID: '' @ s"
  using assms
  by (auto simp add: run_3_def fetch_def Let_def job_of_def
      split: fetch_result.splits option.splits sum.splits)

lemma run_p_reads_job_id:
  assumes "job_of (backend en (nreq st) (run_req_p (repo st))) = Some job"
  shows "run_p en st =
         poll_p en job (snd (fetch en (run_req_p (repo st))
           (set_status (js ''Running pipeline...'') st)))"
  using assms
  by (auto simp add: run_p_def fetch_def set_status_def Let_def job_of_def
      split: fetch_result.splits option.splits sum.splits)

text \<open>
  C9, as the claim states it: for every non-empty repository URL the submit operation
  issues one POST that carries the URL, encoded, in the query string and not in a
  body. \<^verbatim>\<open>run\<close> of part_000 posts to \<^verbatim>\<open>/run\<close> with no query string and the URL in a
  JSON body; \<^verbatim>\<open>run\<close> of the first script of main.js issues no request for a URL of two
  spaces, which its guard trims to the empty string, and none for a URL that is a lone
  surrogate, on which \<^verbatim>\<open>encodeURIComponent\<close> throws inside the \<^verbatim>\<open>try\<close> block.
\<close>

theorem submit_counterexamples:
  "posts (events (run_p (test_env []) (init_page (js ''x'')))) =
     [\<lparr>meth = POST, url = js ''https://arch-repoo.onrender.com/run'',
       headers = [(js ''Content-Type'', js ''application/json'')],
       body = Some (js ''{'' @ [0x22] @ js ''repo_url'' @ [0x22] @ js '':'' @ [0x22] @ js ''x'' @
                    [0x22] @ js ''}'')\<rparr>] \<and>
   js ''  '' \<noteq> [] \<and>
   requests (events (run (test_env []) (init_page (js ''  '')))) = [] \<and>
   requests (events (run (test_env []) (init_page [0xD800]))) = [] \<and>
   status_text (run (test_env []) (init_page [0xD800])) = js ''Failed to connect to backend.''"
proof -
  have a: "posts (events (run_p (test_env []) (init_page (js ''x'')))) =
     [\<lparr>meth = POST, url = js ''https://arch-repoo.onrender.com/run'',
       headers = [(js ''Content-Type'', js ''application/json'')],
       body = Some (js ''{'' @ [0x22] @ js ''repo_url'' @ [0x22] @ js '':'' @ [0x22] @ js ''x'' @
                    [0x22] @ js ''}'')\<rparr>]"
    by (simp add: run_p_posts init_page_def posts_Cons run_req_p_def RENDER_URL_def
        stringify_repo_url_def json_string_def json_unit_def is_lead_def is_trail_def js_def)
  have b: "js ''  '' \<noteq> []" "trim (repo (init_page (js ''  ''))) = []"
    by (simp_all add: js_def init_page_def trim_def is_ws_def)
  have c: "requests (events (run (test_env []) (init_page (js ''  '')))) = []"
    using run_blank_no_request [OF b(2), of "test_env []"] by (simp add: init_page_def)
  have t: "trim (repo (init_page [0xD800])) = [0xD800]"
    by (simp add: init_page_def trim_def is_ws_def)
  have e: "encodeURIComponent [0xD800] = Inl URIError"
    by (simp add: unreserved_def is_lead_def js_def)
  have rt: "run_try en [0xD800] s = (Inl URIError, s)" for en s
    unfolding run_try_def e by simp
  have d: "requests (events (run (test_env []) (init_page [0xD800]))) = []"
    "status_text (run (test_env []) (init_page [0xD800])) = js ''Failed to connect to backend.''"
    by (simp_all add: run_def t rt Let_def set_status_def emit_def)
       (simp add: init_page_def)
  from a b(1) c d show ?thesis by blast
qed

text \<open>
  C9, amended. For every repository URL that is not empty after trimming: when
  \<^verbatim>\<open>encodeURIComponent\<close> accepts the trimmed URL, \<^verbatim>\<open>run\<close> of the first script of main.js
  issues exactly one POST, to \<^verbatim>\<open>/run?repo_url=\<close> followed by the encoded trimmed URL and
  with no body; when it accepts the URL, \<^verbatim>\<open>run\<close> of the second and of the third script
  issues exactly one POST, to \<^verbatim>\<open>/run?repo_url=\<close> followed by the encoded URL and with
  no body; \<^verbatim>\<open>run\<close> of part_000 issues exactly one POST, to \<^verbatim>\<open>/run\<close> with the URL in the
  JSON body \<^verbatim>\<open>{"repo_url": ...}\<close>. When the POST is answered with a success status and
  a JSON body that gives a \<^verbatim>\<open>job_id\<close>, that \<^verbatim>\<open>job_id\<close> is what the first and the second
  script and part_000 go on to poll, and what the third script displays after
  \<^verbatim>\<open>Job ID: \<close> when it converts to a string.
\<close>

theorem run_submits_once:
  assumes "trim (repo st) \<noteq> []"
  shows
   "(encodeURIComponent (trim (repo st)) = Inr t \<longrightarrow>
      posts (events (run en st)) = posts (events st) @ [post_req (run_url t)] \<and>
      (is_ok (backend en (nreq st) (post_req (run_url t))) \<and>
       job_of (backend en (nreq st) (post_req (run_url t))) = Some job \<longrightarrow>
       run en st =
         poll en job (snd (fetch en (post_req (run_url t))
           (set_status (js ''Waking up server (may take ~30 seconds)...'') st))))) \<and>
    (encodeURIComponent (repo st) = Inr q \<longrightarrow>
      posts (events (run_2 en st)) =
        posts (events st) @ [post_req (js ''/run?repo_url='' @ q)] \<and>
      (is_ok (backend en (nreq st) (post_req (js ''/run?repo_url='' @ q))) \<and>
       job_of (backend en (nreq st) (post_req (js ''/run?repo_url='' @ q))) = Some job \<longrightarrow>
       run_2 en st =
         poll_2 en job (snd (fetch en (post_req (js ''/run?repo_url='' @ q))
           (set_status (js ''Running pipeline...'') st)))) \<and>
      posts (events (run_3 en st)) =
        posts (events st) @ [post_req (API @ js ''/run?repo_url='' @ q)] \<and>
      (is_ok (backend en (nreq st) (post_req (API @ js ''/run?repo_url='' @ q))) \<and>
       job_of (backend en (nreq st) (post_req (API @ js ''/run?repo_url='' @ q))) = Some job \<and>
       to_str job = Inr s \<longrightarrow>
       out_text (run_3 en st) = js ''Job ID: '' @ s)) \<and>
    posts (events (run_p en st)) = posts (events st) @ [run_req_p (repo st)] \<and>
    url (run_req_p (repo st)) = RENDER_URL @ js ''/run'' \<and>
    body (run_req_p (repo st)) = Some (stringify_repo_url (repo st)) \<and>
    (is_ok (backend en (nreq st) (run_req_p (repo st))) \<and>
     job_of (backend en (nreq st) (run_req_p (repo st))) = Some job \<longrightarrow>
     run_p en st =
       poll_p en job (snd (fetch en (run_req_p (repo st))
         (set_status (js ''Running pipeline...'') st))))"
  using assms run_posts [of st t en] run_reads_job_id [of st t en job]
    run_2_posts [of st q en] run_2_reads_job_id [of st q en job]
    run_3_posts [of st q en] run_3_reads_job_id [of st q en job s]
    run_p_posts [of en st] run_p_reads_job_id [of en st job]
  by (simp add: run_req_p_def)

theorem run_submits_once_witness:
  "trim (repo (init_page (js '' https://github.com/a/b ''))) \<noteq> [] \<and>
   encodeURIComponent (trim (repo (init_page (js '' https://github.com/a/b '')))) =
     Inr (js ''https%3A%2F%2Fgithub.com%2Fa%2Fb'') \<and>
   is_ok (backend full_script (nreq (init_page (js '' https://github.com/a/b '')))
      (post_req (run_url (js ''https%3A%2F%2Fgithub.com%2Fa%2Fb'')))) \<and>
   job_of (backend full_script (nreq (init_page (js '' https://github.com/a/b '')))
      (post_req (run_url (js ''https%3A%2F%2Fgithub.com%2Fa%2Fb'')))) = Some (JStr (js ''j1'')) \<and>
   posts (events (run full_script (init_page (js '' https://github.com/a/b '')))) =
     [post_req (run_url (js ''https%3A%2F%2Fgithub.com%2Fa%2Fb''))] \<and>
   run full_script (init_page (js '' https://github.com/a/b '')) =
     poll full_script (JStr (js ''j1''))
       (snd (fetch full_script (post_req (run_url (js ''https%3A%2F%2Fgithub.com%2Fa%2Fb'')))
          (set_status (js ''Waking up server (may take ~30 seconds)...'')
             (init_page (js '' https://github.com/a/b ''))))) \<and>
   posts (events (run_p full_script (init_page (js '' https://github.com/a/b '')))) =
     [run_req_p (js '' https://github.com/a/b '')]"
proof -
  have r: "repo (init_page (js '' https://github.com/a/b '')) = js '' https://github.com/a/b ''"
    and n: "nreq (init_page (js '' https://github.com/a/b '')) = 0"
    and e: "events (init_page (js '' https://github.com/a/b '')) = []"
    by (simp_all add: init_page_def)
  have tr: "trim (js '' https://github.com/a/b '') = js ''https://github.com/a/b''"
    by (simp add: trim_def is_ws_def js_def)
  have h1: "trim (repo (init_page (js '' https://github.com/a/b ''))) \<noteq> []"
    unfolding r tr by (simp add: js_def)
  have h2: "encodeURIComponent (trim (repo (init_page (js '' https://github.com/a/b '')))) =
     Inr (js ''https%3A%2F%2Fgithub.com%2Fa%2Fb'')"
    unfolding r tr
    by (simp add: js_def unreserved_def percent_def utf8_def hex_digit_def after_def
        is_lead_def is_trail_def)
  have b: "backend full_script 0 rq = job_reply (js ''j1'')" for rq
    by (simp add: full_script_def test_env_def scripted_def)
  have h3: "is_ok (backend full_script (nreq (init_page (js '' https://github.com/a/b '')))
      (post_req (run_url (js ''https%3A%2F%2Fgithub.com%2Fa%2Fb''))))"
    unfolding n b by (simp add: is_ok_def job_reply_def reply_def ok_def)
  have h4: "job_of (backend full_script (nreq (init_page (js '' https://github.com/a/b '')))
      (post_req (run_url (js ''https%3A%2F%2Fgithub.com%2Fa%2Fb'')))) = Some (JStr (js ''j1''))"
    unfolding n b by (simp add: job_of_def job_reply_def reply_def)
  note t = run_submits_once [OF h1, of "js ''https%3A%2F%2Fgithub.com%2Fa%2Fb''" full_script
      "JStr (js ''j1'')"]
  from t h2 have p: "posts (events (run full_script (init_page (js '' https://github.com/a/b '')))) =
     posts (events (init_page (js '' https://github.com/a/b ''))) @
     [post_req (run_url (js ''https%3A%2F%2Fgithub.com%2Fa%2Fb''))]"
    by blast
  from t h2 h3 h4 have q: "run full_script (init_page (js '' https://github.com/a/b '')) =
     poll full_script (JStr (js ''j1''))
       (snd (fetch full_script (post_req (run_url (js ''https%3A%2F%2Fgithub.com%2Fa%2Fb'')))
          (set_status (js ''Waking up server (may take ~30 seconds)...'')
             (init_page (js '' https://github.com/a/b '')))))"
    by blast
  from t have u: "posts (events (run_p full_script (init_page (js '' https://github.com/a/b '')))) =
     posts (events (init_page (js '' https://github.com/a/b ''))) @
     [run_req_p (repo (init_page (js '' https://github.com/a/b '')))]"
    by blast
  from h1 h2 h3 h4 p q u show ?thesis
    unfolding e r by (simp add: posts_Cons)
qed

subsection \<open>Polling\<close>

text \<open>
  In the first script of main.js, a call of \<^verbatim>\<open>poll\<close> whose \<^verbatim>\<open>try\<close> block throws
  schedules one retry after 3000 milliseconds and lets no error escape.
\<close>

lemma poll_failure_retries:
  assumes "fst (poll_try en job st) = Inl err"
  shows "timers (poll en job st) = timers st @ [(3000, job)] \<and>
         uncaught (events (poll en job st)) = uncaught (events st) \<and>
         status_text (poll en job st) = js ''Waiting for backend...''"
  using assms
  by (auto simp add: poll_def poll_try_def fetch_def set_status_def emit_def setTimeout_def Let_def
      uncaught_append split: fetch_result.splits option.splits if_splits prod.splits sum.splits)

text \<open>
  C6. A failed status request in a poll must be swallowed and retried after a fixed
  delay. \<^verbatim>\<open>poll\<close> of the second script of main.js has no \<^verbatim>\<open>catch\<close>: when the status
  request fails at the network, its promise is rejected with no handler and no retry
  is scheduled.
\<close>

theorem poll_2_network_error_stops:
  "timers (poll_2 (test_env []) (JStr (js ''j1'')) (init_page [])) = [] \<and>
   uncaught (events (poll_2 (test_env []) (JStr (js ''j1'')) (init_page []))) = [FetchFailed]"
  by (simp add: poll_2_def fetch_def test_env_def scripted_def init_page_def emit_def Let_def)

lemma run_timers_idle: "timers st = [] \<Longrightarrow> run_timers p k st = st"
  by (cases k) simp_all






lemma status_not_result: "status_url a \<noteq> result_url b"
  by (simp add: status_url_def result_url_def API_BASE_def js_def)













text \<open>
  In the first script of main.js, a job that does not convert to a string never leads
  to a request: the template literal throws inside the \<^verbatim>\<open>try\<close> block, and \<^verbatim>\<open>poll\<close>
  retries every 3000 milliseconds for ever without entering \<^verbatim>\<open>render\<close>.
\<close>

lemma poll_unconvertible:
  assumes "to_str job = Inl err" and "timers st = []"
  shows "timers (run_timers (poll en) k (poll en job st)) = [(3000, job)] \<and>
         requests (events (run_timers (poll en) k (poll en job st))) = requests (events st) \<and>
         invocations ''render'' (events (run_timers (poll en) k (poll en job st))) =
           invocations ''render'' (events st)"
  using assms(2)
proof (induction k arbitrary: st)
  case 0
  with assms(1) show ?case
    by (simp add: poll_def poll_try_def setTimeout_def set_status_def emit_def requests_append
        invocations_append invocations_Cons)
next
  case (Suc k)
  define s1 where "s1 = (poll en job st)\<lparr>timers := []\<rparr>"
  have p: "timers (poll en job st) = [(3000, job)]"
    and r: "requests (events s1) = requests (events st)"
    and i: "invocations ''render'' (events s1) = invocations ''render'' (events st)"
    and t: "timers s1 = []"
    using assms(1) Suc.prems
    by (simp_all add: s1_def poll_def poll_try_def setTimeout_def set_status_def emit_def
        requests_append invocations_append invocations_Cons)
  have "run_timers (poll en) (Suc k) (poll en job st) = run_timers (poll en) k (poll en job s1)"
    by (simp add: p s1_def)
  with Suc.IH [OF t] r i show ?case by simp
qed



subsection \<open>Rendering only for a ready job\<close>

lemma gated_weaken: "gated rep res False es \<Longrightarrow> gated rep res s es"
proof (induction es arbitrary: s)
  case Nil
  then show ?case by simp
next
  case (Cons e es)
  then show ?case
  proof (cases e)
    case (Fetched rq r)
    with Cons show ?thesis
      by (cases "rep rq r") (auto split: if_splits)
  qed simp_all
qed

lemma gated_append:
  "gated rep res s xs \<Longrightarrow> gated rep res False ys \<Longrightarrow> gated rep res s (xs @ ys)"
proof (induction xs arbitrary: s)
  case Nil
  then show ?case by (simp add: gated_weaken)
next
  case (Cons e xs)
  then show ?case
    by (cases e) (auto split: if_splits)
qed

lemma run_not_result: "run_url a \<noteq> result_url b"
  by (simp add: run_url_def result_url_def API_BASE_def js_def)

lemma result_url_inj: "result_url a = result_url b \<Longrightarrow> a = b"
  by (simp add: result_url_def)

lemma poll_new_events:
  "\<exists>new. events (poll en job st) = events st @ new \<and>
         gated (status_report (status_url j)) (request_to (result_url j)) False new"
  by (auto simp add: poll_def poll_try_def render_def render_try_def fetch_def emit_def
      set_status_def setTimeout_def Let_def get_req_def status_report_def request_to_def
      reports_ready_def status_not_result
      dest: result_url_inj
      split: fetch_result.splits option.splits sum.splits)

lemma poll_gated:
  assumes "gated (status_report (status_url j)) (request_to (result_url j)) s (events st)"
  shows "gated (status_report (status_url j)) (request_to (result_url j)) s (events (poll en job st))"
proof -
  from poll_new_events [of en job st j] obtain new
    where "events (poll en job st) = events st @ new"
      and "gated (status_report (status_url j)) (request_to (result_url j)) False new"
    by blast
  with assms show ?thesis
    by (simp add: gated_append)
qed

text \<open>The events of the submission of the first script, up to the call of \<^verbatim>\<open>poll\<close>.\<close>

lemma run_try_events:
  "events (snd (run_try en v st)) = events st \<or>
   (\<exists>q r. events (snd (run_try en v st)) = events st @ [Fetched (post_req (run_url q)) r])"
  by (auto simp add: run_try_def fetch_def Let_def split: sum.splits fetch_result.splits option.splits)

lemma run_gated:
  assumes "gated (status_report (status_url j)) (request_to (result_url j)) s (events st)"
  shows "gated (status_report (status_url j)) (request_to (result_url j)) s (events (run en st))"
proof (cases "trim (repo st) = []")
  case True
  with assms show ?thesis
    by (simp add: run_def emit_def gated_append)
next
  case False
  define s0 where "s0 = set_status (js ''Waking up server (may take ~30 seconds)...'') st"
  define s1 where "s1 = snd (run_try en (trim (repo st)) s0)"
  have new: "gated (status_report (status_url j)) (request_to (result_url j)) False
               [Fetched (post_req (run_url q)) r]" for q r
    by (simp add: post_req_def request_to_def run_not_result)
  have e0: "events s0 = events st"
    by (simp add: s0_def set_status_def)
  from run_try_events [of en "trim (repo st)" s0]
  consider "events s1 = events st"
    | q r where "events s1 = events st @ [Fetched (post_req (run_url q)) r]"
    unfolding s1_def e0 by blast
  then have g1: "gated (status_report (status_url j)) (request_to (result_url j)) s (events s1)"
  proof cases
    case 1
    with assms show ?thesis by simp
  next
    case 2
    with gated_append [OF assms new] show ?thesis by simp
  qed
  have g2: "gated (status_report (status_url j)) (request_to (result_url j)) s
              (events (emit (ConsoleError err) s1))" for err
    using g1 by (simp add: emit_def gated_append)
  show ?thesis
    using False g2 poll_gated [OF g1, of en]
    by (auto simp add: run_def s0_def s1_def set_status_def Let_def split: prod.splits sum.splits)
qed

lemma run_timers_gated:
  assumes "gated (status_report (status_url j)) (request_to (result_url j)) s (events st)"
  shows "gated (status_report (status_url j)) (request_to (result_url j)) s
           (events (run_timers (poll en) k st))"
  using assms
proof (induction k arbitrary: st)
  case 0
  then show ?case by simp
next
  case (Suc k)
  show ?case
  proof (cases "timers st")
    case Nil
    with Suc.prems show ?thesis by simp
  next
    case (Cons t rest)
    obtain ms job where t: "t = (ms, job)" by (cases t)
    have "gated (status_report (status_url j)) (request_to (result_url j)) s
            (events (poll en job (st\<lparr>timers := rest\<rparr>)))"
      using Suc.prems by (intro poll_gated) simp
    from Suc.IH [OF this] Cons t show ?thesis by simp
  qed
qed

lemma entered_weaken: "entered_after f good None es \<Longrightarrow> entered_after f good q es"
proof (cases es)
  case Nil
  then show ?thesis by simp
next
  case (Cons e es')
  assume "entered_after f good None es"
  with Cons show ?thesis by (cases e) (auto split: if_splits)
qed

lemma entered_append:
  "entered_after f good q xs \<Longrightarrow> entered_after f good None ys \<Longrightarrow>
   entered_after f good q (xs @ ys)"
proof (induction f good q xs rule: entered_after.induct)
  case (1 f good prev)
  then show ?case by (simp add: entered_weaken)
qed auto

lemma poll_new_entered:
  "\<exists>new. events (poll en job st) = events st @ new \<and>
         entered_after ''render'' status_probe None new"
  by (auto simp add: poll_def poll_try_def render_def render_try_def fetch_def emit_def
      set_status_def setTimeout_def Let_def status_probe_def reports_ready_def
      split: fetch_result.splits option.splits sum.splits)

lemma poll_entered:
  assumes "entered_after ''render'' status_probe q (events st)"
  shows "entered_after ''render'' status_probe q (events (poll en job st))"
proof -
  from poll_new_entered [of en job st] obtain new
    where "events (poll en job st) = events st @ new"
      and "entered_after ''render'' status_probe None new"
    by blast
  with assms show ?thesis
    by (simp add: entered_append)
qed

lemma run_entered:
  assumes "entered_after ''render'' status_probe q (events st)"
  shows "entered_after ''render'' status_probe q (events (run en st))"
proof (cases "trim (repo st) = []")
  case True
  with assms show ?thesis
    by (simp add: run_def emit_def entered_append)
next
  case False
  define s0 where "s0 = set_status (js ''Waking up server (may take ~30 seconds)...'') st"
  define s1 where "s1 = snd (run_try en (trim (repo st)) s0)"
  have e0: "events s0 = events st"
    by (simp add: s0_def set_status_def)
  from run_try_events [of en "trim (repo st)" s0]
  consider "events s1 = events st"
    | u r where "events s1 = events st @ [Fetched (post_req (run_url u)) r]"
    unfolding s1_def e0 by blast
  then have e1: "entered_after ''render'' status_probe q (events s1)"
  proof cases
    case 1
    with assms show ?thesis by simp
  next
    case 2
    have "entered_after ''render'' status_probe None [Fetched (post_req (run_url u)) r]"
      by simp
    with entered_append [OF assms this] 2 show ?thesis by simp
  qed
  have e2: "entered_after ''render'' status_probe q (events (emit (ConsoleError err) s1))" for err
    using e1 by (simp add: emit_def entered_append)
  show ?thesis
    using False e2 poll_entered [OF e1, of en]
    by (auto simp add: run_def s0_def s1_def set_status_def Let_def split: prod.splits sum.splits)
qed

lemma run_timers_entered:
  assumes "entered_after ''render'' status_probe q (events st)"
  shows "entered_after ''render'' status_probe q (events (run_timers (poll en) k st))"
  using assms
proof (induction k arbitrary: st)
  case 0
  then show ?case by simp
next
  case (Suc k)
  show ?case
  proof (cases "timers st")
    case Nil
    with Suc.prems show ?thesis by simp
  next
    case (Cons t rest)
    obtain ms job where t: "t = (ms, job)" by (cases t)
    have "entered_after ''render'' status_probe q (events (poll en job (st\<lparr>timers := rest\<rparr>)))"
      using Suc.prems by (intro poll_entered) simp
    from Suc.IH [OF this] Cons t show ?thesis by simp
  qed
qed

text \<open>
  part_000: a call of \<^verbatim>\<open>poll\<close> for the job of the run adds events that keep the order,
  and schedules a callback for the same job only.
\<close>

lemma poll_p_new_events:
  assumes "job_string job = jo"
  shows "\<exists>new. events (poll_p en job st) = events st @ new \<and>
         entered_after ''renderDot'' (result_probe jo) None new"
  using assms
  by (auto simp add: poll_p_def renderDot_then_def fetch_def emit_def set_status_def
      setTimeout_def Let_def is_ok_def result_probe_def job_string_def answer_text_def
      split: fetch_result.splits sum.splits)

lemma poll_p_timers:
  "set (timers (poll_p en job st)) \<subseteq> insert (2000, job) (set (timers st))"
  by (auto simp add: poll_p_def renderDot_then_def fetch_def emit_def set_status_def
      setTimeout_def Let_def split: fetch_result.splits sum.splits)

lemma poll_p_entered:
  assumes "job_string job = jo"
    and "entered_after ''renderDot'' (result_probe jo) q (events st)"
  shows "entered_after ''renderDot'' (result_probe jo) q (events (poll_p en job st))"
proof -
  from poll_p_new_events [OF assms(1), of en st] obtain new
    where "events (poll_p en job st) = events st @ new"
      and "entered_after ''renderDot'' (result_probe jo) None new"
    by blast
  with assms(2) show ?thesis
    by (simp add: entered_append)
qed

lemma run_timers_p_entered:
  assumes "entered_after ''renderDot'' (result_probe jo) q (events st)"
    and "\<forall>t \<in> set (timers st). job_string (snd t) = jo"
  shows "entered_after ''renderDot'' (result_probe jo) q (events (run_timers (poll_p en) k st))"
  using assms
proof (induction k arbitrary: st)
  case 0
  then show ?case by simp
next
  case (Suc k)
  show ?case
  proof (cases "timers st")
    case Nil
    with Suc.prems show ?thesis by simp
  next
    case (Cons t rest)
    obtain ms job where t: "t = (ms, job)" by (cases t)
    from Suc.prems(2) Cons t have j: "job_string job = jo"
      and r: "\<forall>t \<in> set rest. job_string (snd t) = jo"
      by simp_all
    define s1 where "s1 = st\<lparr>timers := rest\<rparr>"
    have a: "entered_after ''renderDot'' (result_probe jo) q (events (poll_p en job s1))"
      using Suc.prems(1) by (intro poll_p_entered [OF j]) (simp add: s1_def)
    have b: "\<forall>t \<in> set (timers (poll_p en job s1)). job_string (snd t) = jo"
      using poll_p_timers [of en job s1] r j by (auto simp add: s1_def)
    from Suc.IH [OF a b] Cons t show ?thesis by (simp add: s1_def)
  qed
qed

lemma run_p_entered:
  "entered_after ''renderDot''
     (result_probe (submitted_job (backend en 0 (run_req_p r)))) None
     (events (run_timers (poll_p en) k (run_p en (init_page r))))"
proof -
  define jo where "jo = submitted_job (backend en 0 (run_req_p r))"
  define s1 where "s1 = snd (fetch en (run_req_p r) (set_status (js ''Running pipeline...'') (init_page r)))"
  have ev: "events s1 = [Fetched (run_req_p r) (backend en 0 (run_req_p r))]"
    and ts: "timers s1 = []"
    by (simp_all add: s1_def fetch_def set_status_def init_page_def Let_def)
  have e1: "entered_after ''renderDot'' (result_probe jo) None (events s1)"
    unfolding ev by simp
  have t1: "\<forall>t \<in> set (timers s1). job_string (snd t) = jo"
    by (simp add: ts)
  have stop: "entered_after ''renderDot'' (result_probe jo) None
                (events (run_timers (poll_p en) k (emit (Uncaught err) s1)))" for err
    using e1 ts by (simp add: run_timers_idle emit_def entered_append)
  have go: "entered_after ''renderDot'' (result_probe jo) None
              (events (run_timers (poll_p en) k (poll_p en job s1)))"
    if "job_of (backend en 0 (run_req_p r)) = Some job" for job
  proof -
    from that have j: "job_string job = jo"
      by (simp add: jo_def submitted_job_def)
    have b: "\<forall>t \<in> set (timers (poll_p en job s1)). job_string (snd t) = jo"
      using poll_p_timers [of en job s1] j ts by auto
    from run_timers_p_entered [OF poll_p_entered [OF j e1] b] show ?thesis .
  qed
  have "run_p en (init_page r) = (case backend en 0 (run_req_p r) of
          NetworkError \<Rightarrow> emit (Uncaught FetchFailed) s1
        | Resolved res \<Rightarrow>
            (case json_body res of
               None \<Rightarrow> emit (Uncaught JsonSyntax) s1
             | Some data \<Rightarrow>
                 (case get_prop data (js ''job_id'') of
                    Inl err \<Rightarrow> emit (Uncaught err) s1
                  | Inr jobId \<Rightarrow> poll_p en jobId s1)))"
    by (simp add: run_p_def s1_def fetch_def set_status_def init_page_def Let_def
        split: fetch_result.split option.split sum.split)
  then show ?thesis
    using stop go unfolding jo_def [symmetric]
    by (auto simp add: job_of_def split: fetch_result.splits option.splits sum.splits)
qed

lemma poll_p_requests:
  "to_str job = Inr j \<Longrightarrow>
   requests (events (poll_p en job st)) = requests (events st) @ [get_req (dot_url j)]"
  by (auto simp add: poll_p_def renderDot_then_def fetch_def emit_def set_status_def
      setTimeout_def Let_def requests_append split: fetch_result.splits sum.splits)

text \<open>
  C7, as the claim states it: the result of a job is requested only after the backend
  has reported the job ready. In a run of part_000 whose result request is answered
  with 404, the result of job \<^verbatim>\<open>j1\<close> is requested although no response before it
  reported readiness.
\<close>

theorem result_fetched_before_ready:
  "\<not> gated any_report (request_to (dot_url (js ''j1''))) False
       (events (run_p (test_env [job_reply (js ''j1''), reply 404 [] None]) (init_page (js ''x''))))"
  by (simp add: run_p_def poll_p_def fetch_def test_env_def scripted_def job_reply_def reply_def
      init_page_def set_status_def setTimeout_def emit_def ok_def Let_def request_to_def
      get_req_def any_report_def reports_ready_def dot_url_def RENDER_URL_def run_req_p_def
      js_def)

text \<open>
  C7, amended. In every state that a run reaches from a page just loaded, after any
  number of timer callbacks: in the first script of main.js, every request for the
  result of a job \<open>j\<close> comes after a status request for \<open>j\<close> that was answered with a
  success and a truthy \<^verbatim>\<open>ready\<close>, and every entry into \<^verbatim>\<open>render(job)\<close> comes right
  after the GET of the status of that same job, answered so; in part_000, every entry
  into \<^verbatim>\<open>renderDot(dot)\<close> comes right after the GET of \<^verbatim>\<open>/result/<job>/dot\<close> for the job
  that the submission gave, answered with a success status and with the text \<open>dot\<close>.
  And in part_000 every call of \<^verbatim>\<open>poll\<close> for a job that converts to a string issues
  exactly one request, that GET of the result: the result is the readiness probe, and
  is requested before any report of readiness.
\<close>

theorem render_only_when_ready:
  "gated (status_report (status_url j)) (request_to (result_url j)) False
     (events (run_timers (poll en) k (run en (init_page r)))) \<and>
   entered_after ''render'' status_probe None
     (events (run_timers (poll en) k (run en (init_page r)))) \<and>
   entered_after ''renderDot'' (result_probe (submitted_job (backend en 0 (run_req_p r)))) None
     (events (run_timers (poll_p en) k (run_p en (init_page r)))) \<and>
   (to_str job = Inr j \<longrightarrow>
    requests (events (poll_p en job st)) = requests (events st) @ [get_req (dot_url j)])"
proof -
  have "gated (status_report (status_url j)) (request_to (result_url j)) False
          (events (init_page r))"
    by (simp add: init_page_def)
  then have a: "gated (status_report (status_url j)) (request_to (result_url j)) False
     (events (run_timers (poll en) k (run en (init_page r))))"
    by (intro run_timers_gated run_gated)
  have "entered_after ''render'' status_probe None (events (init_page r))"
    by (simp add: init_page_def)
  then have b: "entered_after ''render'' status_probe None
     (events (run_timers (poll en) k (run en (init_page r))))"
    by (intro run_timers_entered run_entered)
  from a b run_p_entered [of en r k] poll_p_requests [of job j en st] show ?thesis
    by blast
qed

theorem render_only_when_ready_witness:
  "to_str (JStr (js ''j1'')) = Inr (js ''j1'') \<and>
   gated (status_report (status_url (js ''j1''))) (request_to (result_url (js ''j1''))) False
     (events (run_timers (poll full_script) 1 (run full_script (init_page (js ''x''))))) \<and>
   map url (requests (events (run_timers (poll full_script) 1
       (run full_script (init_page (js ''x'')))))) =
     [run_url (js ''x''), status_url (js ''j1''), status_url (js ''j1''),
      result_url (js ''j1'')] \<and>
   entered_after ''render'' status_probe None
     (events (run_timers (poll full_script) 1 (run full_script (init_page (js ''x''))))) \<and>
   invocations ''render''
     (events (run_timers (poll full_script) 1 (run full_script (init_page (js ''x''))))) = 1 \<and>
   submitted_job (backend full_script_p 0 (run_req_p (js ''x''))) = Some (js ''j1'') \<and>
   entered_after ''renderDot''
     (result_probe (submitted_job (backend full_script_p 0 (run_req_p (js ''x''))))) None
     (events (run_timers (poll_p full_script_p) 1 (run_p full_script_p (init_page (js ''x''))))) \<and>
   invocations ''renderDot''
     (events (run_timers (poll_p full_script_p) 1 (run_p full_script_p (init_page (js ''x''))))) = 1 \<and>
   requests (events (poll_p full_script_p (JStr (js ''j1'')) (init_page []))) =
     requests (events (init_page [])) @ [get_req (dot_url (js ''j1''))]"
proof -
  have h: "to_str (JStr (js ''j1'')) = Inr (js ''j1'')"
    by simp
  have t: "trim (js ''x'') = js ''x''"
    "encodeURIComponent (js ''x'') = Inr (js ''x'')" "js ''x'' \<noteq> []"
    by (simp_all add: trim_def is_ws_def js_def unreserved_def)
  have a: "map url (requests (events (run_timers (poll full_script) 1
       (run full_script (init_page (js ''x'')))))) =
     [run_url (js ''x''), status_url (js ''j1''), status_url (js ''j1''),
      result_url (js ''j1'')]"
    and c: "invocations ''render''
     (events (run_timers (poll full_script) 1 (run full_script (init_page (js ''x''))))) = 1"
    by (simp_all add: run_def t run_try_def poll_def poll_try_def render_def render_try_def
        fetch_def full_script_def test_env_def scripted_def job_reply_def ready_reply_def
        reply_def set_status_def setTimeout_def emit_def ok_def Let_def get_req_def post_req_def
        init_page_def invocations_Cons)
  have s: "submitted_job (backend full_script_p 0 (run_req_p (js ''x''))) = Some (js ''j1'')"
    by (simp add: submitted_job_def job_of_def job_string_def full_script_p_def test_env_def
        scripted_def job_reply_def reply_def)
  have b: "invocations ''renderDot''
     (events (run_timers (poll_p full_script_p) 1 (run_p full_script_p (init_page (js ''x''))))) = 1"
    by (simp add: run_p_def poll_p_def renderDot_then_def fetch_def
        full_script_p_def test_env_def scripted_def job_reply_def reply_def
        set_status_def setTimeout_def emit_def ok_def Let_def get_req_def run_req_p_def
        init_page_def invocations_Cons)
  from h a b c s render_only_when_ready [of "js ''j1''" full_script 1 "js ''x''"]
    render_only_when_ready [of "js ''j1''" full_script_p 1 "js ''x''" "JStr (js ''j1'')"
      "init_page []"]
  show ?thesis by blast
qed

subsection \<open>Rendering twice\<close>

lemma render_twice_visible:
  assumes "same_answer en (nreq st) job"
  shows "visible (render en job (render en job st)) = visible (render en job st)"
  using assms
  by (auto simp add: render_def render_try_def fetch_def emit_def set_status_def visible_def
      same_answer_def Let_def split: fetch_result.splits sum.splits)

lemma renderDot_twice_visible:
  "visible (renderDot en dot (renderDot en dot st)) = visible (renderDot en dot st)"
  by (auto simp add: renderDot_def renderDot_then_def emit_def set_status_def visible_def
      Let_def split: sum.splits)

text \<open>
  C8. Rendering the same graph description twice shows what rendering it once shows:
  the markup in the diagram container, the markup of the current image and the status
  text are equal, while the elements are new objects. For \<^verbatim>\<open>render(job)\<close> of the first
  script of main.js, which fetches the description, "the same description" is that the
  backend answers the second request for the result as it answered the first; for
  \<^verbatim>\<open>renderDot(dot)\<close> of part_000 it is the argument.
\<close>

theorem render_idempotent_visible:
  "(same_answer en (nreq st) job \<longrightarrow>
    visible (render en job (render en job st)) = visible (render en job st)) \<and>
   visible (renderDot en dot (renderDot en dot st)) = visible (renderDot en dot st)"
  using render_twice_visible [of en st job] renderDot_twice_visible [of en dot st]
  by blast

theorem render_idempotent_visible_witness:
  "same_answer same_dot (nreq (init_page [])) (JStr (js ''j1'')) \<and>
   visible (render same_dot (JStr (js ''j1'')) (render same_dot (JStr (js ''j1'')) (init_page []))) =
   visible (render same_dot (JStr (js ''j1'')) (init_page [])) \<and>
   visible (render same_dot (JStr (js ''j1'')) (init_page [])) =
     ([js ''<svg>digraph{}</svg>''], Some (js ''<svg>digraph{}</svg>''), done_text) \<and>
   map ident (diagram (render same_dot (JStr (js ''j1''))
      (render same_dot (JStr (js ''j1'')) (init_page [])))) = [1] \<and>
   map ident (diagram (render same_dot (JStr (js ''j1'')) (init_page []))) = [0]"
proof -
  have d: "js ''digraph{}'' \<noteq> []"
    "js ''<svg>'' @ js ''digraph{}'' @ js ''</svg>'' = js ''<svg>digraph{}</svg>''"
    by (simp_all add: js_def)
  have h: "same_answer same_dot (nreq (init_page [])) (JStr (js ''j1''))"
    by (simp add: same_answer_def same_dot_def test_env_def scripted_def init_page_def)
  have v: "visible (render same_dot (JStr (js ''j1'')) (init_page [])) =
     ([js ''<svg>digraph{}</svg>''], Some (js ''<svg>digraph{}</svg>''), done_text)"
    by (simp add: render_def render_try_def fetch_def emit_def set_status_def visible_def
      Let_def same_dot_def test_env_def scripted_def init_page_def reply_def ok_def d)
  have i1: "map ident (diagram (render same_dot (JStr (js ''j1''))
      (render same_dot (JStr (js ''j1'')) (init_page [])))) = [1]"
    by (simp add: render_def render_try_def fetch_def emit_def set_status_def
      Let_def same_dot_def test_env_def scripted_def init_page_def reply_def ok_def d)
  have i0: "map ident (diagram (render same_dot (JStr (js ''j1'')) (init_page []))) = [0]"
    by (simp add: render_def render_try_def fetch_def emit_def set_status_def
      Let_def same_dot_def test_env_def scripted_def init_page_def reply_def ok_def d)
  from render_idempotent_visible [of same_dot "init_page []" "JStr (js ''j1'')"] h v i1 i0
  show ?thesis by blast
qed

end
